theory Spec2Isabelle
  imports Complex_Main "HOL-Library.Sublist"
begin

section \<open>JavaScript values used by the admin host\<close>

text \<open>
  The host (\<^verbatim>\<open>AdminHome\<close> in the application module) keeps its cart and wishlist as
  arrays of plain objects and compares their \<^verbatim>\<open>id\<close> properties with \<^verbatim>\<open>===\<close>.
  A number is an IEEE double: \<open>Fin q\<close> is the finite double whose exact value is the
  rational \<open>q\<close> (the two zeros are one value here: the host never divides by a
  quantity), and the three special values are kept, since \<^verbatim>\<open>NaN\<close> decides both
  \<^verbatim>\<open>===\<close> and \<^verbatim>\<open>||\<close>.
\<close>

datatype jsnum = Fin rat | PInf | NInf | NaN

text \<open>
  An object, array or function is \<open>JObj a own other\<close>: \<open>a\<close> is its identity (two
  references are \<^verbatim>\<open>===\<close> exactly when they point to the same object), \<open>own\<close> its own
  enumerable properties in insertion order, which a spread copies, and \<open>other\<close> the
  further properties a read finds and a spread does not copy: the non-enumerable and the
  inherited ones. A property read is taken to return the same value each time and not to
  throw. An array is an object whose keys are its indices; an object literal has no
  further properties under the keys the host reads. A string value is held in UTF-8.
\<close>

datatype jsval =
    JUndefined
  | JNull
  | JBool bool
  | JNum jsnum
  | JBigInt int
  | JStr string
  | JSymbol nat
  | JObj nat "(string \<times> jsval) list" "(string \<times> jsval) list"

type_synonym obj = "(string \<times> jsval) list"

text \<open>What a \<^verbatim>\<open>throw\<close> carries: the TypeError of the runtime, or any thrown value.\<close>

datatype exn = TypeError | Thrown jsval

text \<open>
  What the language supplies and the host does not define: the rounding of an exact
  result to the nearest double (which may be an infinity), the conversion of a string to
  a number, the conversion of an object to a primitive (for \<^verbatim>\<open>+\<close> and for
  \<^verbatim>\<open>Number\<close>; it runs the object's own methods and may throw), and the UTF-16 code
  units of a string, each as a string of one unit. They are parameters of the model.
\<close>

record lang =
  rnd :: "rat \<Rightarrow> jsnum"
  strToNum :: "string \<Rightarrow> jsnum"
  toPrimDefault :: "jsval \<Rightarrow> exn + jsval"
  toPrimNumber :: "jsval \<Rightarrow> exn + jsval"
  codeUnits :: "string \<Rightarrow> string list"

text \<open>\<^verbatim>\<open>a === b\<close>\<close>

fun strict_eq :: "jsval \<Rightarrow> jsval \<Rightarrow> bool" where
  "strict_eq JUndefined JUndefined = True"
| "strict_eq JNull JNull = True"
| "strict_eq (JBool a) (JBool b) = (a = b)"
| "strict_eq (JNum a) (JNum b) = (a \<noteq> NaN \<and> a = b)"
| "strict_eq (JBigInt a) (JBigInt b) = (a = b)"
| "strict_eq (JStr a) (JStr b) = (a = b)"
| "strict_eq (JSymbol a) (JSymbol b) = (a = b)"
| "strict_eq (JObj a _ _) (JObj b _ _) = (a = b)"
| "strict_eq _ _ = False"

text \<open>Truthiness, as \<^verbatim>\<open>if (v)\<close>, \<^verbatim>\<open>!v\<close> and \<^verbatim>\<open>v || w\<close> test it.\<close>

fun truthy :: "jsval \<Rightarrow> bool" where
  "truthy JUndefined = False"
| "truthy JNull = False"
| "truthy (JBool b) = b"
| "truthy (JNum n) = (n \<noteq> NaN \<and> n \<noteq> Fin 0)"
| "truthy (JBigInt n) = (n \<noteq> 0)"
| "truthy (JStr s) = (s \<noteq> [])"
| "truthy (JSymbol _) = True"
| "truthy (JObj _ _ _) = True"

text \<open>\<^verbatim>\<open>a ?? b\<close>\<close>

fun nullish :: "jsval \<Rightarrow> bool" where
  "nullish JUndefined = True"
| "nullish JNull = True"
| "nullish _ = False"

definition coalesce :: "jsval \<Rightarrow> jsval \<Rightarrow> jsval" where
  "coalesce a b = (if nullish a then b else a)"

text \<open>
  Reading a property of an object that a spread has built: \<^verbatim>\<open>x.k\<close> is
  \<^verbatim>\<open>undefined\<close> when \<open>k\<close> is not an own property (the keys read by the host,
  \<^verbatim>\<open>id\<close>, \<^verbatim>\<open>price\<close>, \<^verbatim>\<open>quantity\<close> and \<^verbatim>\<open>message\<close>, are not on the built-in
  prototypes).
\<close>

definition get_field :: "obj \<Rightarrow> string \<Rightarrow> jsval" where
  "get_field fs k = (case map_of fs k of None \<Rightarrow> JUndefined | Some v \<Rightarrow> v)"

text \<open>
  \<^verbatim>\<open>v?.k\<close>: \<^verbatim>\<open>undefined\<close> on \<^verbatim>\<open>null\<close> and \<^verbatim>\<open>undefined\<close>; on an object, an
  own enumerable property first, then the further ones.
\<close>

fun opt_get :: "jsval \<Rightarrow> string \<Rightarrow> jsval" where
  "opt_get (JObj _ own other) k = (case map_of own k of None \<Rightarrow> get_field other k | Some v \<Rightarrow> v)"
| "opt_get _ k = JUndefined"

text \<open>\<^verbatim>\<open>v.k\<close>: a TypeError on \<^verbatim>\<open>null\<close> and \<^verbatim>\<open>undefined\<close>.\<close>

fun get_prop :: "jsval \<Rightarrow> string \<Rightarrow> exn + jsval" where
  "get_prop JUndefined k = Inl TypeError"
| "get_prop JNull k = Inl TypeError"
| "get_prop v k = Inr (opt_get v k)"

text \<open>Decimal numerals, the property names of the code units of a string.\<close>

function dec :: "nat \<Rightarrow> string" where
  "dec n = (if n < 10 then [''0123456789'' ! n] else dec (n div 10) @ [''0123456789'' ! (n mod 10)])"
  by pat_completeness auto
termination
  by (relation "measure id") auto

declare dec.simps [simp del]

text \<open>
  The own enumerable properties that \<^verbatim>\<open>{...v}\<close> copies: those of an object, the
  indexed code units of a string, none for the other primitives.
\<close>

fun own_props :: "lang \<Rightarrow> jsval \<Rightarrow> obj" where
  "own_props L (JObj _ own other) = own"
| "own_props L (JStr s) = map (\<lambda>i. (dec i, JStr (codeUnits L s ! i))) [0..<length (codeUnits L s)]"
| "own_props L _ = []"

text \<open>\<^verbatim>\<open>{...x, k: v}\<close>: the property keeps its place when \<open>x\<close> has it, and is added last otherwise.\<close>

fun set_prop :: "string \<Rightarrow> jsval \<Rightarrow> obj \<Rightarrow> obj" where
  "set_prop k v [] = [(k, v)]"
| "set_prop k v (p # ps) = (if fst p = k then (k, v) # ps else p # set_prop k v ps)"

subsection \<open>Arithmetic\<close>

text \<open>
  The sum and the product of two doubles: the exact result, rounded; the special values
  follow IEEE 754.
\<close>

fun num_add :: "lang \<Rightarrow> jsnum \<Rightarrow> jsnum \<Rightarrow> jsnum" where
  "num_add L NaN _ = NaN"
| "num_add L _ NaN = NaN"
| "num_add L (Fin a) (Fin b) = rnd L (a + b)"
| "num_add L PInf NInf = NaN"
| "num_add L NInf PInf = NaN"
| "num_add L PInf _ = PInf"
| "num_add L _ PInf = PInf"
| "num_add L NInf _ = NInf"
| "num_add L _ NInf = NInf"





text \<open>
  \<^verbatim>\<open>v + 1\<close>: an object is first converted to its primitive; a string is concatenated
  with the string of 1; a bigint or a symbol is a TypeError; every other primitive is
  converted to a number and added.
\<close>

fun prim_plus_one :: "lang \<Rightarrow> jsval \<Rightarrow> exn + jsval" where
  "prim_plus_one L (JStr s) = Inr (JStr (s @ ''1''))"
| "prim_plus_one L (JBigInt _) = Inl TypeError"
| "prim_plus_one L (JSymbol _) = Inl TypeError"
| "prim_plus_one L (JObj _ _ _) = Inl TypeError"
| "prim_plus_one L JUndefined = Inr (JNum (num_add L NaN (Fin 1)))"
| "prim_plus_one L JNull = Inr (JNum (num_add L (Fin 0) (Fin 1)))"
| "prim_plus_one L (JBool b) = Inr (JNum (num_add L (Fin (if b then 1 else 0)) (Fin 1)))"
| "prim_plus_one L (JNum n) = Inr (JNum (num_add L n (Fin 1)))"

fun plus_one :: "lang \<Rightarrow> jsval \<Rightarrow> exn + jsval" where
  "plus_one L (JObj a own other) =
     (case toPrimDefault L (JObj a own other) of Inl e \<Rightarrow> Inl e | Inr p \<Rightarrow> prim_plus_one L p)"
| "plus_one L v = prim_plus_one L v"

section \<open>The cart slice of the host state\<close>

text \<open>
  Every cart entry is an object built by a spread (\<^verbatim>\<open>{...product, quantity: 1}\<close> or
  \<^verbatim>\<open>{...x, quantity}\<close>), so the cart is a list of property lists. The functions
  below are the updaters passed to \<^verbatim>\<open>setCartItems\<close>; \<open>prev\<close> is the state they
  receive. A callback of \<^verbatim>\<open>map\<close> that throws ends the updater.
\<close>

fun map_exn :: "('a \<Rightarrow> exn + 'b) \<Rightarrow> 'a list \<Rightarrow> exn + 'b list" where
  "map_exn f [] = Inr []"
| "map_exn f (x # xs) =
     (case f x of Inl e \<Rightarrow> Inl e
      | Inr y \<Rightarrow> (case map_exn f xs of Inl e \<Rightarrow> Inl e | Inr ys \<Rightarrow> Inr (y # ys)))"

definition addToCart :: "lang \<Rightarrow> jsval \<Rightarrow> obj list \<Rightarrow> exn + obj list" where
  "addToCart L product prev =
     (case find (\<lambda>x. strict_eq (get_field x ''id'') (opt_get product ''id'')) prev of
        Some existing \<Rightarrow>
          map_exn (\<lambda>x. case get_prop product ''id'' of
                         Inl e \<Rightarrow> Inl e
                       | Inr pid \<Rightarrow>
                           if strict_eq (get_field x ''id'') pid
                           then (case plus_one L (coalesce (get_field x ''quantity'') (JNum (Fin 1))) of
                                   Inl e \<Rightarrow> Inl e
                                 | Inr q \<Rightarrow> Inr (set_prop ''quantity'' q x))
                           else Inr x) prev
      | None \<Rightarrow> Inr (prev @ [set_prop ''quantity'' (JNum (Fin 1)) (own_props L product)]))"

definition removeFromCart :: "jsval \<Rightarrow> obj list \<Rightarrow> obj list" where
  "removeFromCart productId prev = filter (\<lambda>x. \<not> strict_eq (get_field x ''id'') productId) prev"

definition updateQuantity :: "jsval \<Rightarrow> jsval \<Rightarrow> obj list \<Rightarrow> obj list" where
  "updateQuantity productId quantity prev =
     map (\<lambda>x. if strict_eq (get_field x ''id'') productId then set_prop ''quantity'' quantity x else x) prev"

definition clearCart :: "obj list \<Rightarrow> obj list" where
  "clearCart prev = []"

datatype cart_op =
    AddToCart jsval
  | RemoveFromCart jsval
  | UpdateQuantity jsval jsval
  | ClearCart

fun apply_op :: "lang \<Rightarrow> cart_op \<Rightarrow> obj list \<Rightarrow> exn + obj list" where
  "apply_op L (AddToCart p) c = addToCart L p c"
| "apply_op L (RemoveFromCart i) c = Inr (removeFromCart i c)"
| "apply_op L (UpdateQuantity i q) c = Inr (updateQuantity i q c)"
| "apply_op L ClearCart c = Inr (clearCart c)"

fun run_ops :: "lang \<Rightarrow> cart_op list \<Rightarrow> obj list \<Rightarrow> exn + obj list" where
  "run_ops L [] c = Inr c"
| "run_ops L (op # ops) c =
     (case apply_op L op c of Inl e \<Rightarrow> Inl e | Inr c' \<Rightarrow> run_ops L ops c')"

text \<open>
  What the claims compare the cart with: the identity key of an entry, the absence of
  two entries with \<^verbatim>\<open>===\<close> keys, and the quantity recorded for a key.
\<close>

abbreviation cid :: "obj \<Rightarrow> jsval" where
  "cid x \<equiv> get_field x ''id''"

fun uniq :: "obj list \<Rightarrow> bool" where
  "uniq [] = True"
| "uniq (x # xs) = ((\<forall>y\<in>set xs. \<not> strict_eq (cid x) (cid y)) \<and> uniq xs)"






text \<open>\<^verbatim>\<open>Object.prototype.toString\<close>, the string of a plain object; used at concrete inputs.\<close>

definition objToString :: "jsval \<Rightarrow> string" where
  "objToString v = ''[object Object]''"

subsection \<open>Cart total\<close>







text \<open>Doubles represent every integer up to \<open>2^53\<close> in magnitude: rounding leaves it as it is.\<close>

definition exact_on_safe_integers :: "lang \<Rightarrow> bool" where
  "exact_on_safe_integers L = (\<forall>n::int. \<bar>n\<bar> \<le> 2 ^ 53 \<longrightarrow> rnd L (of_int n) = Fin (of_int n))"

section \<open>The wishlist slice of the host state\<close>

definition adminUser :: "nat \<Rightarrow> nat \<Rightarrow> jsval" where
  "adminUser a b =
     JObj a [(''name'', JStr ''Admin''), (''email'', JStr ''admin@shophub.dev''),
             (''role'', JStr ''ADMIN''),
             (''permissions'', JObj b [(''0'', JStr ''EDIT''), (''1'', JStr ''VIEW_WISHLIST_META'')] [])] []"

definition removeFromWishlist :: "jsval \<Rightarrow> obj list \<Rightarrow> obj list" where
  "removeFromWishlist productId prev = filter (\<lambda>x. \<not> strict_eq (cid x) productId) prev"

definition clearWishlist :: "obj list \<Rightarrow> obj list" where
  "clearWishlist prev = []"

text \<open>The second argument is the host's \<^verbatim>\<open>adminUser\<close>, the same reference on every render.\<close>

definition addToWishlist :: "lang \<Rightarrow> jsval \<Rightarrow> jsval \<Rightarrow> obj list \<Rightarrow> obj list" where
  "addToWishlist L user product prev =
     (if list_ex (\<lambda>x. strict_eq (cid x) (opt_get product ''id'')) prev then prev
      else set_prop ''addedBy'' user (own_props L product) # prev)"

definition isInWishlist :: "jsval \<Rightarrow> obj list \<Rightarrow> bool" where
  "isInWishlist productId wishlistItems = list_ex (\<lambda>x. strict_eq (cid x) productId) wishlistItems"

section \<open>The error boundary around a remote\<close>

text \<open>
  \<^verbatim>\<open>RemoteErrorBoundary\<close> holds the thrown value in its state; nothing else writes the
  state. Its render returns its children or the fallback panel, whose two text nodes are
  the heading and the description.
\<close>

record boundary_state =
  error :: jsval

definition boundary_init :: boundary_state where
  "boundary_init = \<lparr>error = JNull\<rparr>"

definition getDerivedStateFromError :: "jsval \<Rightarrow> boundary_state" where
  "getDerivedStateFromError e = \<lparr>error = e\<rparr>"

datatype boundary_output = Children | Fallback string string

definition boundary_render :: "(jsval \<Rightarrow> string) \<Rightarrow> string \<Rightarrow> boundary_state \<Rightarrow> boundary_output" where
  "boundary_render toStr title st =
     (if \<not> truthy (error st) then Children
      else Fallback (title @ '' crashed'')
             (toStr (coalesce (opt_get (error st) ''message'') (error st))))"

text \<open>
  A boundary's life: React calls \<^verbatim>\<open>getDerivedStateFromError\<close> with each value its
  subtree throws and then renders it again. \<open>boundary_run\<close> returns the state after a
  list of thrown values.
\<close>

fun boundary_run :: "boundary_state \<Rightarrow> jsval list \<Rightarrow> boundary_state" where
  "boundary_run st [] = st"
| "boundary_run st (e # es) = boundary_run (getDerivedStateFromError e) es"

text \<open>
  \<^verbatim>\<open>componentDidCatch\<close> writes to the console and, when \<^verbatim>\<open>window.zipy\<close> is truthy,
  calls its \<^verbatim>\<open>logException\<close>. The global is absent (or falsy), or an object whose
  \<^verbatim>\<open>logException\<close> is not callable, or is a function that returns or throws.
\<close>

datatype member = NotCallable | Callable "jsval \<Rightarrow> exn option"

datatype zipy = ZipyAbsent | ZipyObject member

datatype effect = ConsoleError "jsval list" | LogException "jsval list"

definition componentDidCatch :: "zipy \<Rightarrow> string \<Rightarrow> jsval \<Rightarrow> effect list \<times> exn option" where
  "componentDidCatch window_zipy title e =
     (let logged = [ConsoleError [JStr ''[admin-host] Remote crashed:'', JStr title, e]]
      in case window_zipy of
           ZipyAbsent \<Rightarrow> (logged, None)
         | ZipyObject NotCallable \<Rightarrow> (logged, Some TypeError)
         | ZipyObject (Callable logException) \<Rightarrow> (logged @ [LogException [e]], logException e))"

text \<open>A \<^verbatim>\<open>logException\<close> that returns normally; used at concrete inputs.\<close>

definition logs_quietly :: "jsval \<Rightarrow> exn option" where
  "logs_quietly e = None"

section \<open>The composition surface\<close>

text \<open>
  The part of the element tree that \<^verbatim>\<open>AdminHome\<close> returns inside its grid. A lazy
  remote is named by its import specifier; the props handed to it are not part of the tree.
\<close>

datatype element =
    RemoteErrorBoundary "string option" string element
  | Section string element
  | Suspense element element
  | Loader
  | Remote string

record item =
  item_id :: string
  label :: string
  render :: element

text \<open>The arrow of the labels, in UTF-8.\<close>

definition arrow :: string where
  "arrow = [CHR 0xE2, CHR 0x86, CHR 0x92]"

definition items :: "item list" where
  "items =
     [\<lparr>item_id = ''auth.login'', label = ''Auth '' @ arrow @ '' Login'', render = Remote ''auth/Login''\<rparr>,
      \<lparr>item_id = ''catalog.products'', label = ''Catalog '' @ arrow @ '' Products'',
         render = Remote ''catalog/Products''\<rparr>,
      \<lparr>item_id = ''checkout.cart'', label = ''Checkout '' @ arrow @ '' Cart'', render = Remote ''checkout/Cart''\<rparr>,
      \<lparr>item_id = ''account.profile'', label = ''Account '' @ arrow @ '' Profile'',
         render = Remote ''account/Account''\<rparr>]"

text \<open>\<^verbatim>\<open>new Map(pairs)\<close>: a later pair replaces an earlier one with the same key.\<close>

definition byId :: "string \<Rightarrow> item option" where
  "byId = map_of (rev (map (\<lambda>x. (item_id x, x)) items))"

text \<open>\<^verbatim>\<open>selected.map((id) => byId.get(id)).filter(Boolean)\<close>\<close>

definition selectedItems :: "string list \<Rightarrow> item list" where
  "selectedItems selected = List.map_filter byId selected"

definition AdminHome_grid :: "string list \<Rightarrow> element list" where
  "AdminHome_grid selected =
     RemoteErrorBoundary None ''Wishlist''
       (Section ''Wishlist'' (Suspense Loader (Remote ''wishlist/Wishlist'')))
     # map (\<lambda>it. RemoteErrorBoundary (Some (item_id it)) (label it)
                   (Section (label it) (Suspense Loader (render it))))
         (selectedItems selected)"

text \<open>The remotes that occur in a tree, and the one a boundary isolates.\<close>

fun remotes :: "element \<Rightarrow> string list" where
  "remotes (RemoteErrorBoundary k t c) = remotes c"
| "remotes (Section t c) = remotes c"
| "remotes (Suspense f c) = remotes f @ remotes c"
| "remotes Loader = []"
| "remotes (Remote m) = [m]"

fun isolated_lazy :: "element \<Rightarrow> bool" where
  "isolated_lazy (RemoteErrorBoundary k t (Section t' (Suspense Loader (Remote m)))) = (t = t')"
| "isolated_lazy _ = False"

text \<open>The remote behind each option of the selector.\<close>

definition module_of :: "string \<Rightarrow> string" where
  "module_of i =
     (if i = ''auth.login'' then ''auth/Login''
      else if i = ''catalog.products'' then ''catalog/Products''
      else if i = ''checkout.cart'' then ''checkout/Cart''
      else ''account/Account'')"

section \<open>Remote URLs of the build configuration\<close>

text \<open>
  \<^verbatim>\<open>process.env\<close> is a list of variables with their string values; a variable that
  is not set reads \<^verbatim>\<open>undefined\<close>. \<^verbatim>\<open>argv.mode\<close> is a string or missing.
\<close>

type_synonym env = "(string \<times> string) list"

definition isProd :: "string option \<Rightarrow> bool" where
  "isProd mode = (mode = Some ''production'')"

definition authRemoteUrl :: "env \<Rightarrow> string option \<Rightarrow> string" where
  "authRemoteUrl env mode =
     (case map_of env ''SHOPHUB_AUTH_REMOTE_URL'' of Some v \<Rightarrow> v
      | None \<Rightarrow> if isProd mode then ''https://shophub-auth-2.netlify.app/remoteEntry.js''
                else ''http://localhost:5174/remoteEntry.js'')"

definition catalogRemoteUrl :: "env \<Rightarrow> string option \<Rightarrow> string" where
  "catalogRemoteUrl env mode =
     (case map_of env ''SHOPHUB_CATALOG_REMOTE_URL'' of Some v \<Rightarrow> v
      | None \<Rightarrow> if isProd mode then ''https://shophub-catalog-2.netlify.app/remoteEntry.js''
                else ''http://localhost:5175/remoteEntry.js'')"

definition checkoutRemoteUrl :: "env \<Rightarrow> string option \<Rightarrow> string" where
  "checkoutRemoteUrl env mode =
     (case map_of env ''SHOPHUB_CHECKOUT_REMOTE_URL'' of Some v \<Rightarrow> v
      | None \<Rightarrow> if isProd mode then ''https://shophub-checkout-2.netlify.app/remoteEntry.js''
                else ''http://localhost:5176/remoteEntry.js'')"

definition wishlistRemoteUrl :: "env \<Rightarrow> string option \<Rightarrow> string" where
  "wishlistRemoteUrl env mode =
     (case map_of env ''SHOPHUB_WISHLIST_REMOTE_URL'' of Some v \<Rightarrow> v
      | None \<Rightarrow> if isProd mode then ''https://shophub-wishlist-2.netlify.app/remoteEntry.js''
                else ''http://localhost:5177/remoteEntry.js'')"

definition accountRemoteUrl :: "env \<Rightarrow> string option \<Rightarrow> string" where
  "accountRemoteUrl env mode =
     (case map_of env ''SHOPHUB_ACCOUNT_REMOTE_URL'' of Some v \<Rightarrow> v
      | None \<Rightarrow> if isProd mode then ''https://shophub-account-2.netlify.app/remoteEntry.js''
                else ''http://localhost:5178/remoteEntry.js'')"

definition mfRemotes :: "env \<Rightarrow> string option \<Rightarrow> (string \<times> string) list" where
  "mfRemotes env mode =
     [(''auth'', ''auth@'' @ authRemoteUrl env mode),
      (''catalog'', ''catalog@'' @ catalogRemoteUrl env mode),
      (''checkout'', ''checkout@'' @ checkoutRemoteUrl env mode),
      (''wishlist'', ''wishlist@'' @ wishlistRemoteUrl env mode),
      (''account'', ''account@'' @ accountRemoteUrl env mode)]"

text \<open>
  The resolution order the registry is meant to follow, for one remote: the override
  when the variable is set, else the default of the build mode. The table lists, for each
  remote, its variable and its two defaults.
\<close>

definition resolve_order :: "env \<Rightarrow> bool \<Rightarrow> string \<Rightarrow> string \<Rightarrow> string \<Rightarrow> string" where
  "resolve_order env production var prodDefault devDefault =
     (case map_of env var of Some v \<Rightarrow> v
      | None \<Rightarrow> if production then prodDefault else devDefault)"

definition registry :: "(string \<times> string \<times> string \<times> string) list" where
  "registry =
     [(''auth'', ''SHOPHUB_AUTH_REMOTE_URL'',
        ''https://shophub-auth-2.netlify.app/remoteEntry.js'', ''http://localhost:5174/remoteEntry.js''),
      (''catalog'', ''SHOPHUB_CATALOG_REMOTE_URL'',
        ''https://shophub-catalog-2.netlify.app/remoteEntry.js'', ''http://localhost:5175/remoteEntry.js''),
      (''checkout'', ''SHOPHUB_CHECKOUT_REMOTE_URL'',
        ''https://shophub-checkout-2.netlify.app/remoteEntry.js'', ''http://localhost:5176/remoteEntry.js''),
      (''wishlist'', ''SHOPHUB_WISHLIST_REMOTE_URL'',
        ''https://shophub-wishlist-2.netlify.app/remoteEntry.js'', ''http://localhost:5177/remoteEntry.js''),
      (''account'', ''SHOPHUB_ACCOUNT_REMOTE_URL'',
        ''https://shophub-account-2.netlify.app/remoteEntry.js'', ''http://localhost:5178/remoteEntry.js'')]"

section \<open>Properties of the cart\<close>

subsection \<open>Strict equality and property lists\<close>

lemma strict_eq_sym: "strict_eq a b = strict_eq b a"
  by (cases a; cases b) auto



lemma get_field_set_prop:
  "get_field (set_prop k v fs) k' = (if k' = k then v else get_field fs k')"
  by (induction fs) (auto simp: get_field_def)














subsection \<open>The updaters\<close>









lemma addToCart_twice_scenario:
  assumes "exact_on_safe_integers L"
  shows "run_ops L [AddToCart (JObj a [(''id'', JNum (Fin 1)), (''price'', JNum (Fin 10))] []),
                    AddToCart (JObj a [(''id'', JNum (Fin 1)), (''price'', JNum (Fin 10))] [])] []
           = Inr [[(''id'', JNum (Fin 1)), (''price'', JNum (Fin 10)), (''quantity'', JNum (Fin 2))]]"
proof -
  have "rnd L (of_int 2) = Fin (of_int 2)"
    using assms unfolding exact_on_safe_integers_def by (rule allE[where x = 2]) simp
  then have "rnd L 2 = Fin 2" by simp
  then show ?thesis by (simp add: addToCart_def get_field_def coalesce_def)
qed

text \<open>
  Claim C2 asks that addToCart increments the quantity of the entry that has the
  product's id. The updater computes \<^verbatim>\<open>(x.quantity ?? 1) + 1\<close> without converting the
  quantity to a number, as getCartTotal does with \<^verbatim>\<open>Number\<close>: once updateQuantity has
  stored the string 3, a further add of the product with id 1 and price 10 concatenates
  and leaves the string 31 as the quantity.
\<close>

theorem addToCart_string_quantity_concatenates:
  "\<forall>L::lang. run_ops L
     [AddToCart (JObj 0 [(''id'', JNum (Fin 1)), (''price'', JNum (Fin 10))] []),
      UpdateQuantity (JNum (Fin 1)) (JStr ''3''),
      AddToCart (JObj 0 [(''id'', JNum (Fin 1)), (''price'', JNum (Fin 10))] [])] []
     = Inr [[(''id'', JNum (Fin 1)), (''price'', JNum (Fin 10)), (''quantity'', JStr ''31'')]]"
  by (simp add: addToCart_def updateQuantity_def get_field_def coalesce_def)

lemma count_list_filter:
  "count_list (filter P xs) x = (if P x then count_list xs x else 0)"
  by (induction xs) auto

text \<open>
  Claim C8, as the code has it. removeFromCart keeps the cart's order, leaves no entry
  whose id is \<^verbatim>\<open>===\<close> to the given id and keeps every other entry as often as it
  occurred. updateQuantity keeps the length and the order of the cart; an entry whose id
  is \<^verbatim>\<open>===\<close> to the given id gets the given quantity and keeps its other properties,
  and every other entry is left as it is. An id of \<^verbatim>\<open>NaN\<close> is \<^verbatim>\<open>===\<close> to no id.
\<close>

theorem remove_and_update_frame:
  "subseq (removeFromCart i prev) prev \<and>
   \<not> list_ex (\<lambda>x. strict_eq (cid x) i) (removeFromCart i prev) \<and>
   (\<forall>x. \<not> strict_eq (cid x) i \<longrightarrow> count_list (removeFromCart i prev) x = count_list prev x) \<and>
   length (updateQuantity i q prev) = length prev \<and>
   (\<forall>j<length prev.
      if strict_eq (cid (prev ! j)) i
      then get_field (updateQuantity i q prev ! j) ''quantity'' = q \<and>
           (\<forall>k. k \<noteq> ''quantity'' \<longrightarrow>
                get_field (updateQuantity i q prev ! j) k = get_field (prev ! j) k)
      else updateQuantity i q prev ! j = prev ! j)"
proof (intro conjI allI impI)
  show "subseq (removeFromCart i prev) prev"
    by (simp add: removeFromCart_def)
  show "\<not> list_ex (\<lambda>x. strict_eq (cid x) i) (removeFromCart i prev)"
    by (simp add: removeFromCart_def list_ex_iff)
  show "count_list (removeFromCart i prev) x = count_list prev x" if "\<not> strict_eq (cid x) i" for x
    using that by (simp add: removeFromCart_def count_list_filter)
  show "length (updateQuantity i q prev) = length prev"
    by (simp add: updateQuantity_def)
  show "if strict_eq (cid (prev ! j)) i
      then get_field (updateQuantity i q prev ! j) ''quantity'' = q \<and>
           (\<forall>k. k \<noteq> ''quantity'' \<longrightarrow>
                get_field (updateQuantity i q prev ! j) k = get_field (prev ! j) k)
      else updateQuantity i q prev ! j = prev ! j" if "j < length prev" for j
    using that by (simp add: updateQuantity_def get_field_set_prop)
qed

theorem remove_and_update_frame_witness:
  "removeFromCart (JNum (Fin 1))
     [[(''id'', JNum (Fin 1)), (''quantity'', JNum (Fin 2))],
      [(''id'', JNum (Fin 2)), (''quantity'', JNum (Fin 1))]]
     = [[(''id'', JNum (Fin 2)), (''quantity'', JNum (Fin 1))]] \<and>
   get_field (updateQuantity (JNum (Fin 2)) (JNum (Fin 7))
     [[(''id'', JNum (Fin 1)), (''quantity'', JNum (Fin 2))],
      [(''id'', JNum (Fin 2)), (''quantity'', JNum (Fin 1))]] ! 1) ''quantity'' = JNum (Fin 7) \<and>
   updateQuantity (JNum (Fin 2)) (JNum (Fin 7))
     [[(''id'', JNum (Fin 1)), (''quantity'', JNum (Fin 2))],
      [(''id'', JNum (Fin 2)), (''quantity'', JNum (Fin 1))]] ! 0
     = [(''id'', JNum (Fin 1)), (''quantity'', JNum (Fin 2))]"
proof -
  let ?c = "[[(''id'', JNum (Fin 1)), (''quantity'', JNum (Fin 2))],
             [(''id'', JNum (Fin 2)), (''quantity'', JNum (Fin 1))]]"
  have u: "\<forall>j<length ?c.
      if strict_eq (cid (?c ! j)) (JNum (Fin 2))
      then get_field (updateQuantity (JNum (Fin 2)) (JNum (Fin 7)) ?c ! j) ''quantity'' = JNum (Fin 7) \<and>
           (\<forall>k. k \<noteq> ''quantity'' \<longrightarrow>
                get_field (updateQuantity (JNum (Fin 2)) (JNum (Fin 7)) ?c ! j) k = get_field (?c ! j) k)
      else updateQuantity (JNum (Fin 2)) (JNum (Fin 7)) ?c ! j = ?c ! j"
    using remove_and_update_frame[of "JNum (Fin 2)" ?c "JNum (Fin 7)"] by blast
  have "get_field (updateQuantity (JNum (Fin 2)) (JNum (Fin 7)) ?c ! 1) ''quantity'' = JNum (Fin 7)"
    using u[rule_format, of 1] by (simp add: get_field_def)
  moreover have "updateQuantity (JNum (Fin 2)) (JNum (Fin 7)) ?c ! 0 = ?c ! 0"
    using u[rule_format, of 0] by (simp add: get_field_def)
  moreover have "removeFromCart (JNum (Fin 1)) ?c = [[(''id'', JNum (Fin 2)), (''quantity'', JNum (Fin 1))]]"
    by (simp add: removeFromCart_def get_field_def)
  ultimately show ?thesis by simp
qed

text \<open>
  The claim as stated fails for the id \<^verbatim>\<open>NaN\<close>: the entry whose id is \<^verbatim>\<open>NaN\<close> is
  neither removed nor updated.
\<close>

theorem remove_and_update_counterexample:
  "removeFromCart (JNum NaN) [[(''id'', JNum NaN), (''quantity'', JNum (Fin 1))]]
     = [[(''id'', JNum NaN), (''quantity'', JNum (Fin 1))]] \<and>
   updateQuantity (JNum NaN) (JNum (Fin 5)) [[(''id'', JNum NaN), (''quantity'', JNum (Fin 1))]]
     = [[(''id'', JNum NaN), (''quantity'', JNum (Fin 1))]]"
  by (simp add: removeFromCart_def updateQuantity_def get_field_def)

section \<open>Properties of the wishlist\<close>

text \<open>
  Claim C3, as the code has it. When some entry of the wishlist has an id that is
  \<^verbatim>\<open>===\<close> to the product's id, addToWishlist returns the wishlist it received; and a
  wishlist without two \<^verbatim>\<open>===\<close> ids stays so under addToWishlist of a product that
  hands the spread the id the host reads from it. An id of \<^verbatim>\<open>NaN\<close> is \<^verbatim>\<open>===\<close> to no
  id, its own included.
\<close>

theorem addToWishlist_present_unchanged:
  "((\<exists>x\<in>set prev. strict_eq (cid x) (opt_get p ''id'')) \<longrightarrow> addToWishlist L user p prev = prev) \<and>
   (uniq prev \<and> get_field (own_props L p) ''id'' = opt_get p ''id'' \<longrightarrow>
      uniq (addToWishlist L user p prev))"
proof (intro conjI impI)
  assume "\<exists>x\<in>set prev. strict_eq (cid x) (opt_get p ''id'')"
  then show "addToWishlist L user p prev = prev"
    by (simp add: addToWishlist_def list_ex_iff)
next
  assume a: "uniq prev \<and> get_field (own_props L p) ''id'' = opt_get p ''id''"
  show "uniq (addToWishlist L user p prev)"
  proof (cases "list_ex (\<lambda>x. strict_eq (cid x) (opt_get p ''id'')) prev")
    case True
    with a show ?thesis by (simp add: addToWishlist_def)
  next
    case False
    then have "\<forall>y\<in>set prev. \<not> strict_eq (opt_get p ''id'') (cid y)"
      using strict_eq_sym by (auto simp: list_ex_iff)
    with a False show ?thesis
      by (simp add: addToWishlist_def get_field_set_prop)
  qed
qed

theorem addToWishlist_present_unchanged_witness:
  "\<forall>L::lang. addToWishlist L (adminUser 0 1) (JObj 2 [(''id'', JStr ''p1''), (''name'', JStr ''Lamp'')] [])
     [[(''id'', JStr ''p1''), (''name'', JStr ''Lamp''), (''addedBy'', adminUser 0 1)]]
     = [[(''id'', JStr ''p1''), (''name'', JStr ''Lamp''), (''addedBy'', adminUser 0 1)]]"
proof
  fix L :: lang
  let ?w = "[[(''id'', JStr ''p1''), (''name'', JStr ''Lamp''), (''addedBy'', adminUser 0 1)]]"
  let ?p = "JObj 2 [(''id'', JStr ''p1''), (''name'', JStr ''Lamp'')] []"
  have h: "\<exists>x\<in>set ?w. strict_eq (cid x) (opt_get ?p ''id'')" by (simp add: get_field_def)
  from addToWishlist_present_unchanged[of ?w ?p L "adminUser 0 1"] h
  show "addToWishlist L (adminUser 0 1) ?p ?w = ?w" by blast
qed

text \<open>
  The claim as stated fails for the id \<^verbatim>\<open>NaN\<close>: the wishlist holds an entry with the
  product's id and still gets a second one.
\<close>

theorem addToWishlist_counterexample:
  "\<forall>L::lang. addToWishlist L (adminUser 0 1) (JObj 2 [(''id'', JNum NaN)] [])
       [[(''id'', JNum NaN), (''addedBy'', adminUser 0 1)]]
     = [[(''id'', JNum NaN), (''addedBy'', adminUser 0 1)],
        [(''id'', JNum NaN), (''addedBy'', adminUser 0 1)]]"
  by (simp add: addToWishlist_def get_field_def)

text \<open>
  Claim C9. When no entry of the wishlist has an id that is \<^verbatim>\<open>===\<close> to the product's id,
  addToWishlist puts one new entry in front of the wishlist it received, which follows
  unchanged; the new entry's \<^verbatim>\<open>addedBy\<close> is the host's admin user and its other
  properties are the product's own.
\<close>

theorem addToWishlist_absent_prepends:
  assumes "\<forall>x\<in>set prev. \<not> strict_eq (cid x) (opt_get p ''id'')"
  shows "\<exists>e. addToWishlist L user p prev = e # prev \<and>
              get_field e ''addedBy'' = user \<and>
              (\<forall>k. k \<noteq> ''addedBy'' \<longrightarrow> get_field e k = get_field (own_props L p) k)"
proof -
  have "\<not> list_ex (\<lambda>x. strict_eq (cid x) (opt_get p ''id'')) prev"
    using assms by (simp add: list_ex_iff)
  then have "addToWishlist L user p prev = set_prop ''addedBy'' user (own_props L p) # prev"
    by (simp add: addToWishlist_def)
  then show ?thesis by (simp add: get_field_set_prop)
qed

theorem addToWishlist_absent_prepends_witness:
  "\<forall>L::lang. \<exists>e. addToWishlist L (adminUser 0 1) (JObj 3 [(''id'', JStr ''p2''), (''name'', JStr ''Desk'')] [])
          [[(''id'', JStr ''p1''), (''name'', JStr ''Lamp''), (''addedBy'', adminUser 0 1)]]
        = e # [[(''id'', JStr ''p1''), (''name'', JStr ''Lamp''), (''addedBy'', adminUser 0 1)]] \<and>
        get_field e ''addedBy'' = adminUser 0 1 \<and> get_field e ''id'' = JStr ''p2''"
proof
  fix L :: lang
  let ?w = "[[(''id'', JStr ''p1''), (''name'', JStr ''Lamp''), (''addedBy'', adminUser 0 1)]]"
  let ?p = "JObj 3 [(''id'', JStr ''p2''), (''name'', JStr ''Desk'')] []"
  have h: "\<forall>x\<in>set ?w. \<not> strict_eq (cid x) (opt_get ?p ''id'')" by (simp add: get_field_def)
  from addToWishlist_absent_prepends[OF h, of L "adminUser 0 1"] obtain e where
    e: "addToWishlist L (adminUser 0 1) ?p ?w = e # ?w" "get_field e ''addedBy'' = adminUser 0 1"
       "\<forall>k. k \<noteq> ''addedBy'' \<longrightarrow> get_field e k = get_field (own_props L ?p) k"
    by blast
  from e(3) have "get_field e ''id'' = JStr ''p2''" by (simp add: get_field_def)
  with e show "\<exists>e. addToWishlist L (adminUser 0 1) ?p ?w = e # ?w \<and>
        get_field e ''addedBy'' = adminUser 0 1 \<and> get_field e ''id'' = JStr ''p2''" by blast
qed

section \<open>Properties of the cart total\<close>







section \<open>Properties of the error boundary\<close>

lemma boundary_truthy_error_fallback:
  "truthy e \<Longrightarrow>
   boundary_render toStr title (getDerivedStateFromError e)
     = Fallback (title @ '' crashed'') (toStr (coalesce (opt_get e ''message'') e))"
  by (simp add: boundary_render_def getDerivedStateFromError_def)

lemma boundary_run_last:
  "es \<noteq> [] \<Longrightarrow> boundary_run st es = getDerivedStateFromError (last es)"
  by (induction es arbitrary: st) auto

lemma boundary_truthy_lifetime:
  assumes "es \<noteq> []" and "\<forall>e\<in>set es. truthy e"
  shows "boundary_render toStr title (boundary_run boundary_init es)
           = Fallback (title @ '' crashed'')
               (toStr (coalesce (opt_get (last es) ''message'') (last es)))"
proof -
  from assms have "truthy (last es)" by simp
  then show ?thesis
    using assms(1) by (simp add: boundary_run_last boundary_truthy_error_fallback)
qed

text \<open>
  Claim C5 asks that a boundary that has captured a failure never renders its child again
  and shows the fallback with its label and the error's description. The render tests
  the captured value for truthiness, so after a child has thrown \<^verbatim>\<open>undefined\<close> (or
  \<^verbatim>\<open>null\<close>, 0, the empty string or \<^verbatim>\<open>false\<close>) the boundary renders its children
  again and shows no fallback.
\<close>

theorem boundary_falsy_error_renders_children:
  "boundary_render objToString ''Wishlist'' (boundary_run boundary_init [JUndefined]) = Children \<and>
   boundary_render objToString ''Wishlist'' (boundary_run boundary_init [JNull]) = Children \<and>
   boundary_render objToString ''Wishlist'' (boundary_run boundary_init [JStr '''']) = Children"
  by (simp add: boundary_render_def getDerivedStateFromError_def)

text \<open>
  Claim C6, as the code has it. On every caught failure componentDidCatch writes the
  boundary's label and the error to the console first. When \<^verbatim>\<open>window.zipy\<close> is absent it
  does nothing else and raises nothing. When \<^verbatim>\<open>window.zipy.logException\<close> is a function
  it is called once, with the error as its only argument.
\<close>

theorem componentDidCatch_reports:
  "(\<exists>rest. fst (componentDidCatch window_zipy title e)
             = ConsoleError [JStr ''[admin-host] Remote crashed:'', JStr title, e] # rest) \<and>
   componentDidCatch ZipyAbsent title e
     = ([ConsoleError [JStr ''[admin-host] Remote crashed:'', JStr title, e]], None) \<and>
   componentDidCatch (ZipyObject (Callable logException)) title e
     = ([ConsoleError [JStr ''[admin-host] Remote crashed:'', JStr title, e], LogException [e]],
        logException e)"
  by (cases window_zipy) (auto simp: componentDidCatch_def Let_def split: member.splits)

text \<open>
  The claim as stated fails where the collaborator is present: it receives the error and
  not the label.
\<close>

theorem componentDidCatch_counterexample:
  "componentDidCatch (ZipyObject (Callable logs_quietly)) ''Wishlist'' (JStr ''boom'')
     = ([ConsoleError [JStr ''[admin-host] Remote crashed:'', JStr ''Wishlist'', JStr ''boom''],
         LogException [JStr ''boom'']], None)"
  by (simp add: componentDidCatch_def logs_quietly_def)

section \<open>Properties of the composition surface\<close>

lemma byId_Some:
  "byId i = Some it \<Longrightarrow> item_id it = i \<and> render it = Remote (module_of i)"
  by (auto simp: byId_def items_def module_of_def split: if_splits)

lemma byId_known: "i \<in> set (map item_id items) \<Longrightarrow> \<exists>it. byId i = Some it"
  by (auto simp: byId_def items_def)

lemma selectedItems_Nil: "selectedItems [] = []"
  by (simp add: selectedItems_def map_filter_simps)

lemma selectedItems_Cons:
  "selectedItems (i # is) = (case byId i of None \<Rightarrow> selectedItems is | Some it \<Rightarrow> it # selectedItems is)"
  by (cases "byId i") (simp_all add: selectedItems_def map_filter_simps)

lemma selectedItems_rendered: "it \<in> set (selectedItems selected) \<Longrightarrow> \<exists>m. render it = Remote m"
proof (induction selected)
  case Nil
  then show ?case by (simp add: selectedItems_Nil)
next
  case (Cons i "is")
  then show ?case
    by (cases "byId i") (auto simp: selectedItems_Cons dest: byId_Some)
qed

lemma selectedItems_known:
  "set selected \<subseteq> set (map item_id items) \<Longrightarrow>
   map item_id (selectedItems selected) = selected \<and>
   map render (selectedItems selected) = map (\<lambda>i. Remote (module_of i)) selected"
proof (induction selected)
  case Nil
  then show ?case by (simp add: selectedItems_Nil)
next
  case (Cons i "is")
  then obtain it where "byId i = Some it" using byId_known[of i] by auto
  with Cons show ?case using byId_Some[of i it] by (simp add: selectedItems_Cons)
qed

text \<open>
  Claim C4. For every selection made of options of the selector, the grid that AdminHome
  renders holds the Wishlist remote first and then, in the order of the selection, the
  remote of each selected option and nothing else; every element of the grid is an error
  boundary around a section around a Suspense, with the loader as fallback, around one
  lazy remote.
\<close>

theorem AdminHome_grid_renders_selected:
  assumes "set selected \<subseteq> set (map item_id items)"
  shows "map remotes (AdminHome_grid selected)
           = [''wishlist/Wishlist''] # map (\<lambda>i. [module_of i]) selected \<and>
         set (concat (map remotes (AdminHome_grid selected)))
           = {''wishlist/Wishlist''} \<union> module_of ` set selected \<and>
         length (AdminHome_grid selected) = 1 + length selected \<and>
         (\<forall>e\<in>set (AdminHome_grid selected). isolated_lazy e)"
proof -
  let ?wrap = "\<lambda>it. RemoteErrorBoundary (Some (item_id it)) (label it)
                   (Section (label it) (Suspense Loader (render it)))"
  have r: "map render (selectedItems selected) = map (\<lambda>i. Remote (module_of i)) selected"
    and l: "length (selectedItems selected) = length selected"
    using selectedItems_known[OF assms] by (auto dest: arg_cong[where f = length])
  have "map remotes (map ?wrap (selectedItems selected))
          = map (\<lambda>e. remotes e) (map render (selectedItems selected))"
    by simp
  also have "\<dots> = map (\<lambda>i. [module_of i]) selected"
    unfolding r by simp
  finally have m: "map remotes (map ?wrap (selectedItems selected)) = map (\<lambda>i. [module_of i]) selected" .
  have a: "map remotes (AdminHome_grid selected)
           = [''wishlist/Wishlist''] # map (\<lambda>i. [module_of i]) selected"
    unfolding AdminHome_grid_def using m by simp
  have b: "set (concat (map remotes (AdminHome_grid selected)))
           = {''wishlist/Wishlist''} \<union> module_of ` set selected"
    unfolding a by auto
  have c: "length (AdminHome_grid selected) = 1 + length selected"
    by (simp add: AdminHome_grid_def l)
  have d: "isolated_lazy e" if "e \<in> set (AdminHome_grid selected)" for e
  proof (cases "e = RemoteErrorBoundary None ''Wishlist''
       (Section ''Wishlist'' (Suspense Loader (Remote ''wishlist/Wishlist'')))")
    case True
    then show ?thesis by simp
  next
    case False
    with that obtain it where it: "it \<in> set (selectedItems selected)" "e = ?wrap it"
      by (auto simp: AdminHome_grid_def)
    from selectedItems_rendered[OF it(1)] obtain m where "render it = Remote m" by blast
    with it(2) show ?thesis by simp
  qed
  from a b c d show ?thesis by blast
qed

theorem AdminHome_grid_renders_selected_witness:
  "map remotes (AdminHome_grid [''checkout.cart'', ''auth.login''])
     = [[''wishlist/Wishlist''], [''checkout/Cart''], [''auth/Login'']] \<and>
   length (AdminHome_grid [''checkout.cart'', ''auth.login'']) = 3"
proof -
  have h: "set [''checkout.cart'', ''auth.login''] \<subseteq> set (map item_id items)"
    by (simp add: items_def)
  from AdminHome_grid_renders_selected[OF h] show ?thesis by (simp add: module_of_def)
qed

section \<open>Properties of the remote registry\<close>

text \<open>
  Claim C7, as the code has it. For each of the five remotes and every environment, the
  URL is the value of the remote's environment variable when that variable is set, and
  otherwise the default of the build mode: the production default when the mode is
  production, the local development default otherwise. Both defaults of every remote are
  non-empty, so a URL is always produced, and it is empty only when the variable is set
  to the empty string. Each remote has one entry, named for it.
\<close>

theorem mfRemotes_resolution:
  "mfRemotes env mode
     = map (\<lambda>(n, var, prodDefault, devDefault).
              (n, n @ ''@'' @ resolve_order env (isProd mode) var prodDefault devDefault)) registry \<and>
   distinct (map fst (mfRemotes env mode)) \<and>
   (\<forall>(n, var, prodDefault, devDefault)\<in>set registry.
      prodDefault \<noteq> [] \<and> devDefault \<noteq> [] \<and>
      (map_of env var \<noteq> Some [] \<longrightarrow>
         resolve_order env (isProd mode) var prodDefault devDefault \<noteq> []))"
proof (intro conjI)
  show "mfRemotes env mode
     = map (\<lambda>(n, var, prodDefault, devDefault).
              (n, n @ ''@'' @ resolve_order env (isProd mode) var prodDefault devDefault)) registry"
    by (simp add: mfRemotes_def registry_def resolve_order_def authRemoteUrl_def
        catalogRemoteUrl_def checkoutRemoteUrl_def wishlistRemoteUrl_def accountRemoteUrl_def)
  show "distinct (map fst (mfRemotes env mode))"
    by (simp add: mfRemotes_def)
  show "\<forall>(n, var, prodDefault, devDefault)\<in>set registry.
      prodDefault \<noteq> [] \<and> devDefault \<noteq> [] \<and>
      (map_of env var \<noteq> Some [] \<longrightarrow>
         resolve_order env (isProd mode) var prodDefault devDefault \<noteq> [])"
    by (auto simp: registry_def resolve_order_def split: option.splits)
qed

theorem mfRemotes_resolution_witness:
  "map_of (mfRemotes [(''SHOPHUB_CATALOG_REMOTE_URL'', ''https://cdn.example/catalog.js'')]
             (Some ''production'')) ''catalog''
     = Some ''catalog@https://cdn.example/catalog.js'' \<and>
   map_of (mfRemotes [(''SHOPHUB_CATALOG_REMOTE_URL'', ''https://cdn.example/catalog.js'')]
             (Some ''production'')) ''auth''
     = Some ''auth@https://shophub-auth-2.netlify.app/remoteEntry.js'' \<and>
   map_of (mfRemotes [(''SHOPHUB_CATALOG_REMOTE_URL'', ''https://cdn.example/catalog.js'')] None) ''auth''
     = Some ''auth@http://localhost:5174/remoteEntry.js''"
  using mfRemotes_resolution[of "[(''SHOPHUB_CATALOG_REMOTE_URL'', ''https://cdn.example/catalog.js'')]"
          "Some ''production''"]
        mfRemotes_resolution[of "[(''SHOPHUB_CATALOG_REMOTE_URL'', ''https://cdn.example/catalog.js'')]" None]
  by (simp add: registry_def resolve_order_def isProd_def)

text \<open>
  The claim as stated fails when a variable is set to the empty string: the endpoint is
  empty and nothing fails.
\<close>

theorem mfRemotes_counterexample:
  "authRemoteUrl [(''SHOPHUB_AUTH_REMOTE_URL'', '''')] (Some ''production'') = '''' \<and>
   map_of (mfRemotes [(''SHOPHUB_AUTH_REMOTE_URL'', '''')] (Some ''production'')) ''auth''
     = Some ''auth@''"
  by (simp add: mfRemotes_def authRemoteUrl_def)

end
